theory Spec2Isabelle
  imports Complex_Main
begin

section \<open>Carbon footprint monitoring tool: the calculation and the advice\<close>

text \<open>
  The embedding follows \<^verbatim>\<open>src/main.py\<close>: the class \<^verbatim>\<open>CarbonCalculator\<close> with its
  conversion factors, its input loop \<^verbatim>\<open>get_input\<close> and \<^verbatim>\<open>calculate_footprint\<close>, and the
  function \<^verbatim>\<open>generate_advice\<close>. The PDF rendering (\<^verbatim>\<open>PDFReport\<close>, \<^verbatim>\<open>generate_report\<close>)
  and \<^verbatim>\<open>main\<close> only format and store what these compute and are left out.

  Numbers. The source computes with Python floats. They are modelled here as exact
  rationals (\<^typ>\<open>rat\<close>): every finite float is a rational, the decimal literals of the
  source are taken at their decimal value (\<open>0.0005\<close> is \<open>5 / 10000\<close>), and the operations
  \<open>+\<close>, \<open>-\<close>, \<open>*\<close>, \<open>/\<close> are exact. The rounding of binary floating point, infinities and
  NaN are outside this model, so the values it computes agree with the program's only
  where no operation rounds. The properties proved below are those that do not depend
  on rounding: a result that is exactly zero, the sign of a result, and the choice of
  the advice, which only compares three numbers. Statements about the digits of a
  computed value, or about exact proportionality between two computed values, are not
  made here.
\<close>

subsection \<open>The calculator and its conversion factors\<close>

text \<open>The five attributes set by \<^verbatim>\<open>CarbonCalculator.__init__\<close> (lines 13 to 17).\<close>

record CarbonCalculator =
  electricity_factor :: rat
  gas_factor :: rat
  fuel_factor :: rat
  waste_factor :: rat
  travel_factor :: rat

definition CarbonCalculator_init :: CarbonCalculator where
  "CarbonCalculator_init =
     \<lparr> electricity_factor = 5 / 10000,
       gas_factor = 53 / 10000,
       fuel_factor = 232 / 100,
       waste_factor = 57 / 100,
       travel_factor = 231 / 100 \<rparr>"

subsection \<open>Reading the inputs\<close>

text \<open>
  \<^verbatim>\<open>get_input\<close> (lines 19 to 28) reads lines from standard input until one converts to a
  float that is not negative. The standard input is modelled as the list of the lines
  still to be read, each line already classified by what \<^verbatim>\<open>float(value)\<close> does with it:
  \<open>None\<close> when the conversion raises \<^verbatim>\<open>ValueError\<close>, \<open>Some v\<close> when it returns \<open>v\<close>.
  A negative value raises \<^verbatim>\<open>ValueError\<close> inside the \<^verbatim>\<open>try\<close>, which is caught like a
  conversion failure, and the loop asks again. When the input is exhausted \<^verbatim>\<open>input\<close>
  raises \<^verbatim>\<open>EOFError\<close>, which the loop does not catch. All calls of the source use the
  default \<^verbatim>\<open>input_type=float\<close>. The prompts and the messages printed are not modelled,
  and neither are the lines \<^verbatim>\<open>inf\<close> and \<^verbatim>\<open>nan\<close>, which \<^verbatim>\<open>float\<close> converts and the loop
  accepts: the entries considered are finite numbers.
\<close>

datatype error = EOFError

type_synonym stdin = "rat option list"

fun get_input :: "stdin \<Rightarrow> error + rat \<times> stdin" where
  "get_input [] = Inl EOFError"
| "get_input (None # rest) = get_input rest"
| "get_input (Some v # rest) = (if v < 0 then get_input rest else Inr (v, rest))"

subsection \<open>The footprint\<close>

text \<open>
  The dictionary returned by \<^verbatim>\<open>calculate_footprint\<close> (lines 52 to 57) always has the same
  four keys, so it is a record.
\<close>

record footprint =
  energy_co2 :: rat
  waste_co2 :: rat
  travel_co2 :: rat
  total_co2 :: rat

text \<open>
  \<^verbatim>\<open>calculate_footprint\<close> (lines 30 to 57): seven calls of \<^verbatim>\<open>get_input\<close> in the order of
  the source, then the three category formulas and their sum. The result carries the
  input left unread.
\<close>

definition calculate_footprint :: "CarbonCalculator \<Rightarrow> stdin \<Rightarrow> error + footprint \<times> stdin" where
  "calculate_footprint self inp =
     (case get_input inp of Inl e \<Rightarrow> Inl e | Inr (electricity_bill, inp1) \<Rightarrow>
      case get_input inp1 of Inl e \<Rightarrow> Inl e | Inr (gas_bill, inp2) \<Rightarrow>
      case get_input inp2 of Inl e \<Rightarrow> Inl e | Inr (fuel_bill, inp3) \<Rightarrow>
      case get_input inp3 of Inl e \<Rightarrow> Inl e | Inr (waste_kg, inp4) \<Rightarrow>
      case get_input inp4 of Inl e \<Rightarrow> Inl e | Inr (recycle_percent, inp5) \<Rightarrow>
      case get_input inp5 of Inl e \<Rightarrow> Inl e | Inr (km_year, inp6) \<Rightarrow>
      case get_input inp6 of Inl e \<Rightarrow> Inl e | Inr (fuel_efficiency, inp7) \<Rightarrow>
        let energy = (electricity_bill * electricity_factor self
                        + gas_bill * gas_factor self
                        + fuel_bill * fuel_factor self) * 12;
            waste = waste_kg * (waste_factor self - (recycle_percent / 100)) * 12;
            travel = km_year / 100 * fuel_efficiency * travel_factor self;
            total = energy + waste + travel
        in Inr (\<lparr> energy_co2 = energy, waste_co2 = waste,
                   travel_co2 = travel, total_co2 = total \<rparr>, inp7))"

text \<open>
  The operator's seven entries, each accepted at the first attempt, as the input that
  \<^verbatim>\<open>calculate_footprint\<close> reads: electricity bill, gas bill, fuel bill, waste in kg,
  recycled percentage, kilometres per year, fuel efficiency.
\<close>

definition entries :: "rat \<Rightarrow> rat \<Rightarrow> rat \<Rightarrow> rat \<Rightarrow> rat \<Rightarrow> rat \<Rightarrow> rat \<Rightarrow> stdin" where
  "entries el gas fuel kg pct km eff = map Some [el, gas, fuel, kg, pct, km, eff]"

subsection \<open>The advice\<close>

text \<open>Python's \<^verbatim>\<open>sep.join(xs)\<close> on a list of strings.\<close>

fun str_join :: "string \<Rightarrow> string list \<Rightarrow> string" where
  "str_join sep [] = []"
| "str_join sep [x] = x"
| "str_join sep (x # y # ys) = x @ sep @ str_join sep (y # ys)"

text \<open>The recommendations appended by each of the four \<^verbatim>\<open>if\<close> statements of
  \<^verbatim>\<open>generate_advice\<close> (lines 142 to 144, 147 to 149, 152 to 154, 157 to 158).\<close>

definition energy_advice :: "string list" where
  "energy_advice =
     [''1. Reduce energy consumption by implementing energy-efficient practices and using renewable energy sources.'',
      ''2. Encourage the use of energy-saving devices and appliances.'',
      ''3. Conduct energy audits to identify areas for improvement.'']"

definition waste_advice :: "string list" where
  "waste_advice =
     [''1. Implement a comprehensive recycling program to reduce waste production.'',
      ''2. Educate employees about waste reduction and proper recycling techniques.'',
      ''3. Explore opportunities to compost organic waste.'']"

definition travel_advice :: "string list" where
  "travel_advice =
     [''1. Promote remote work and virtual meetings to reduce business travel.'',
      ''2. Encourage the use of public transportation, carpooling, and biking.'',
      ''3. Invest in fuel-efficient or electric vehicles for business travel.'']"

definition fallback_advice :: "string list" where
  "fallback_advice =
     [''1. Continue to monitor and optimize energy usage, waste production, and business travel.'',
      ''2. Engage employees in sustainability initiatives and create a culture of environmental responsibility.'']"

text \<open>
  The list \<^verbatim>\<open>advice\<close> as it stands before the final join (lines 139 to 158): three
  independent \<^verbatim>\<open>if\<close> statements that append, then the fallback when the list is still
  empty.
\<close>

definition advice_list :: "footprint \<Rightarrow> string list" where
  "advice_list data =
     (let advice0 = [];
          advice1 = (if energy_co2 data > waste_co2 data \<and> energy_co2 data > travel_co2 data
                     then advice0 @ energy_advice else advice0);
          advice2 = (if waste_co2 data > energy_co2 data \<and> waste_co2 data > travel_co2 data
                     then advice1 @ waste_advice else advice1);
          advice3 = (if travel_co2 data > energy_co2 data \<and> travel_co2 data > waste_co2 data
                     then advice2 @ travel_advice else advice2)
      in if advice3 = [] then advice3 @ fallback_advice else advice3)"

definition generate_advice :: "footprint \<Rightarrow> string" where
  "generate_advice data = str_join [CHR 0x0A] (advice_list data)"

section \<open>Properties\<close>

subsection \<open>Facts about reading and computing\<close>

lemma get_input_accepts: "0 \<le> v \<Longrightarrow> get_input (Some v # rest) = Inr (v, rest)"
  by simp

text \<open>Whatever the input holds, a value that \<^verbatim>\<open>get_input\<close> returns is not negative.\<close>

lemma get_input_nonneg: "get_input inp = Inr (v, rest) \<Longrightarrow> 0 \<le> v"
  by (induction inp rule: get_input.induct) (auto split: if_splits)

text \<open>
  With seven entries that are not negative, \<^verbatim>\<open>calculate_footprint\<close> returns, consumes
  exactly those seven lines and computes the source's expressions, whatever the factors
  of the calculator.
\<close>

lemma calculate_footprint_entries:
  assumes "0 \<le> el" "0 \<le> gas" "0 \<le> fuel" "0 \<le> kg" "0 \<le> pct" "0 \<le> km" "0 \<le> eff"
  shows "calculate_footprint self (entries el gas fuel kg pct km eff @ rest) =
     Inr (\<lparr> energy_co2 = (el * electricity_factor self + gas * gas_factor self
                            + fuel * fuel_factor self) * 12,
            waste_co2 = kg * (waste_factor self - pct / 100) * 12,
            travel_co2 = km / 100 * eff * travel_factor self,
            total_co2 = (el * electricity_factor self + gas * gas_factor self
                            + fuel * fuel_factor self) * 12
                        + kg * (waste_factor self - pct / 100) * 12
                        + km / 100 * eff * travel_factor self \<rparr>, rest)"
  using assms by (simp add: calculate_footprint_def entries_def Let_def)

subsection \<open>Facts about the advice\<close>

lemma str_join_two: "str_join sep [a, b] = a @ sep @ b"
  by simp

lemma str_join_three: "str_join sep [a, b, c] = a @ sep @ b @ sep @ c"
  by simp

lemma advice_nonempty:
  "energy_advice \<noteq> []" "waste_advice \<noteq> []" "travel_advice \<noteq> []" "fallback_advice \<noteq> []"
  by (simp_all add: energy_advice_def waste_advice_def travel_advice_def fallback_advice_def)

lemma advice_list_energy:
  "energy_co2 d > waste_co2 d \<Longrightarrow> energy_co2 d > travel_co2 d \<Longrightarrow> advice_list d = energy_advice"
  by (simp add: advice_list_def Let_def advice_nonempty)

lemma advice_list_waste:
  "waste_co2 d > energy_co2 d \<Longrightarrow> waste_co2 d > travel_co2 d \<Longrightarrow> advice_list d = waste_advice"
  by (simp add: advice_list_def Let_def advice_nonempty)

lemma advice_list_travel:
  "travel_co2 d > energy_co2 d \<Longrightarrow> travel_co2 d > waste_co2 d \<Longrightarrow> advice_list d = travel_advice"
  by (simp add: advice_list_def Let_def advice_nonempty)

lemma advice_list_fallback:
  "\<not> (energy_co2 d > waste_co2 d \<and> energy_co2 d > travel_co2 d) \<Longrightarrow>
   \<not> (waste_co2 d > energy_co2 d \<and> waste_co2 d > travel_co2 d) \<Longrightarrow>
   \<not> (travel_co2 d > energy_co2 d \<and> travel_co2 d > waste_co2 d) \<Longrightarrow>
   advice_list d = fallback_advice"
  by (auto simp add: advice_list_def Let_def)

lemma advice_list_cases:
  "advice_list d = energy_advice \<or> advice_list d = waste_advice
   \<or> advice_list d = travel_advice \<or> advice_list d = fallback_advice"
  using advice_list_energy [of d] advice_list_waste [of d] advice_list_travel [of d]
    advice_list_fallback [of d]
  by blast

text \<open>The eleven recommendation strings differ, and so do the four joined blocks.\<close>

lemma fallback_disjoint:
  "set fallback_advice \<inter> set (energy_advice @ waste_advice @ travel_advice) = {}"
  by (simp add: energy_advice_def waste_advice_def travel_advice_def fallback_advice_def)

lemma blocks_distinct:
  "distinct [str_join [CHR 0x0A] energy_advice, str_join [CHR 0x0A] waste_advice,
             str_join [CHR 0x0A] travel_advice, str_join [CHR 0x0A] fallback_advice]"
  by (simp add: energy_advice_def waste_advice_def travel_advice_def fallback_advice_def)

lemma blocks_contained:
  "filter (\<lambda>block. set block \<subseteq> set energy_advice)
     [energy_advice, waste_advice, travel_advice, fallback_advice] = [energy_advice]"
  "filter (\<lambda>block. set block \<subseteq> set waste_advice)
     [energy_advice, waste_advice, travel_advice, fallback_advice] = [waste_advice]"
  "filter (\<lambda>block. set block \<subseteq> set travel_advice)
     [energy_advice, waste_advice, travel_advice, fallback_advice] = [travel_advice]"
  "filter (\<lambda>block. set block \<subseteq> set fallback_advice)
     [energy_advice, waste_advice, travel_advice, fallback_advice] = [fallback_advice]"
  by (simp_all add: energy_advice_def waste_advice_def travel_advice_def fallback_advice_def)

lemma newline_counts:
  "length (filter (\<lambda>c. c = CHR 0x0A) (str_join [CHR 0x0A] energy_advice)) = 2"
  "length (filter (\<lambda>c. c = CHR 0x0A) (str_join [CHR 0x0A] waste_advice)) = 2"
  "length (filter (\<lambda>c. c = CHR 0x0A) (str_join [CHR 0x0A] travel_advice)) = 2"
  "length (filter (\<lambda>c. c = CHR 0x0A) (str_join [CHR 0x0A] fallback_advice)) = 1"
  by (simp_all add: energy_advice_def waste_advice_def travel_advice_def fallback_advice_def)

subsection \<open>The emissions computation\<close>

text \<open>
  Claim C5. With the recycled percentage entered as \<open>100 * 0.57 = 57\<close>, and the other six
  entries any values that are not negative, the computed \<open>wasteCO2\<close> is exactly 0.
\<close>

theorem recycle_57_zero_waste:
  assumes "0 \<le> el" "0 \<le> gas" "0 \<le> fuel" "0 \<le> kg" "0 \<le> km" "0 \<le> eff"
  shows "100 * waste_factor CarbonCalculator_init = 57
    \<and> (\<exists>fp. calculate_footprint CarbonCalculator_init
               (entries el gas fuel kg (100 * waste_factor CarbonCalculator_init) km eff @ rest)
             = Inr (fp, rest)
           \<and> waste_co2 fp = 0)"
proof -
  have p: "100 * waste_factor CarbonCalculator_init = 57"
    by (simp add: CarbonCalculator_init_def)
  have "(0::rat) \<le> 57" by simp
  from calculate_footprint_entries [OF assms(1-4) this assms(5,6), of CarbonCalculator_init rest]
  show ?thesis
    unfolding p by (simp add: CarbonCalculator_init_def)
qed

theorem recycle_57_zero_waste_witness:
  "(0::rat) \<le> 1 \<and> (0::rat) \<le> 2 \<and> (0::rat) \<le> 3 \<and> (0::rat) \<le> 40 \<and> (0::rat) \<le> 5
   \<and> (0::rat) \<le> 6
   \<and> (\<exists>fp. calculate_footprint CarbonCalculator_init (entries 1 2 3 40 57 5 6 @ []) = Inr (fp, [])
           \<and> waste_co2 fp = 0)"
  using recycle_57_zero_waste [of 1 2 3 40 5 6 "[]"]
  by (simp add: CarbonCalculator_init_def)

text \<open>
  Claim C6. There are entries, none negative and with the recycled percentage above
  \<open>100 * 0.57\<close>, for which the computation returns a breakdown (it does not fail) whose
  \<open>wasteCO2\<close> is strictly negative.
\<close>

theorem negative_waste_reachable:
  "\<exists>el gas fuel kg pct km eff fp.
     0 \<le> el \<and> 0 \<le> gas \<and> 0 \<le> fuel \<and> 0 \<le> kg \<and> 0 \<le> pct \<and> 0 \<le> km \<and> 0 \<le> eff
     \<and> pct > 100 * waste_factor CarbonCalculator_init
     \<and> calculate_footprint CarbonCalculator_init (entries el gas fuel kg pct km eff) = Inr (fp, [])
     \<and> waste_co2 fp < 0"
proof -
  have "calculate_footprint CarbonCalculator_init (entries 0 0 0 10 60 0 0) =
     Inr (\<lparr> energy_co2 = 0, waste_co2 = - (18 / 5), travel_co2 = 0,
            total_co2 = - (18 / 5) \<rparr>, [])"
    by (simp add: calculate_footprint_def entries_def CarbonCalculator_init_def Let_def)
  moreover have "(60::rat) > 100 * waste_factor CarbonCalculator_init"
    by (simp add: CarbonCalculator_init_def)
  ultimately show ?thesis
    by (intro exI [of _ "0::rat"] exI [of _ "10::rat"] exI [of _ "60::rat"]
        exI [of _ "\<lparr> energy_co2 = 0, waste_co2 = - (18 / 5), travel_co2 = 0,
            total_co2 = - (18 / 5) \<rparr>"]) simp
qed

text \<open>
  Claim C8. For the all-zero entries the breakdown is all zeros:
  \<open>energyCO2 = wasteCO2 = travelCO2 = totalCO2 = 0\<close>.
\<close>

theorem zero_entries_zero_footprint:
  "calculate_footprint CarbonCalculator_init (entries 0 0 0 0 0 0 0 @ rest) =
     Inr (\<lparr> energy_co2 = 0, waste_co2 = 0, travel_co2 = 0, total_co2 = 0 \<rparr>, rest)"
  by (simp add: calculate_footprint_def entries_def CarbonCalculator_init_def)

subsection \<open>The advice selector\<close>

text \<open>
  Claim C2. When no category among \<open>energyCO2\<close>, \<open>wasteCO2\<close>, \<open>travelCO2\<close> is strictly
  greater than both of the other two (in particular when the three are equal and
  positive), the advice is exactly the fallback block of two recommendations, and none
  of the category recommendations occurs in it.
\<close>

theorem no_dominant_category_fallback:
  assumes "\<not> (energy_co2 data > waste_co2 data \<and> energy_co2 data > travel_co2 data)"
    and "\<not> (waste_co2 data > energy_co2 data \<and> waste_co2 data > travel_co2 data)"
    and "\<not> (travel_co2 data > energy_co2 data \<and> travel_co2 data > waste_co2 data)"
  shows "advice_list data = fallback_advice
    \<and> generate_advice data = str_join [CHR 0x0A] fallback_advice
    \<and> length (advice_list data) = 2
    \<and> set (advice_list data) \<inter> set (energy_advice @ waste_advice @ travel_advice) = {}
    \<and> generate_advice data \<noteq> str_join [CHR 0x0A] energy_advice
    \<and> generate_advice data \<noteq> str_join [CHR 0x0A] waste_advice
    \<and> generate_advice data \<noteq> str_join [CHR 0x0A] travel_advice"
proof -
  have l: "advice_list data = fallback_advice"
    using assms by (rule advice_list_fallback)
  then have g: "generate_advice data = str_join [CHR 0x0A] fallback_advice"
    by (simp add: generate_advice_def)
  have n: "length fallback_advice = 2"
    by (simp add: fallback_advice_def)
  show ?thesis
    using l g n fallback_disjoint blocks_distinct by auto
qed

theorem no_dominant_category_fallback_witness:
  "\<not> (energy_co2 \<lparr> energy_co2 = 5, waste_co2 = 5, travel_co2 = 5, total_co2 = 15 \<rparr>
        > waste_co2 \<lparr> energy_co2 = 5, waste_co2 = 5, travel_co2 = 5, total_co2 = 15 \<rparr>)
   \<and> (0::rat) < 5
   \<and> generate_advice \<lparr> energy_co2 = 5, waste_co2 = 5, travel_co2 = 5, total_co2 = 15 \<rparr>
       = str_join [CHR 0x0A] fallback_advice"
  using no_dominant_category_fallback
    [of "\<lparr> energy_co2 = 5, waste_co2 = 5, travel_co2 = 5, total_co2 = 15 \<rparr>"]
  by simp

text \<open>
  Claim C3. When one category is strictly greater than both others, the advice is exactly
  that category's three recommendations in their order, joined by newlines. Exactly one
  of the four branch conditions holds for any breakdown (the fourth being that no
  category dominates), and exactly one of the four recommendation blocks occurs in the
  output, so recommendations of two category branches never occur together.
\<close>

theorem advice_branches_exclusive:
  "(energy_co2 data > waste_co2 data \<and> energy_co2 data > travel_co2 data \<longrightarrow>
      advice_list data = energy_advice
      \<and> generate_advice data = str_join [CHR 0x0A] energy_advice)
   \<and> (waste_co2 data > energy_co2 data \<and> waste_co2 data > travel_co2 data \<longrightarrow>
      advice_list data = waste_advice
      \<and> generate_advice data = str_join [CHR 0x0A] waste_advice)
   \<and> (travel_co2 data > energy_co2 data \<and> travel_co2 data > waste_co2 data \<longrightarrow>
      advice_list data = travel_advice
      \<and> generate_advice data = str_join [CHR 0x0A] travel_advice)
   \<and> length (filter (\<lambda>fired. fired)
        [energy_co2 data > waste_co2 data \<and> energy_co2 data > travel_co2 data,
         waste_co2 data > energy_co2 data \<and> waste_co2 data > travel_co2 data,
         travel_co2 data > energy_co2 data \<and> travel_co2 data > waste_co2 data,
         \<not> (energy_co2 data > waste_co2 data \<and> energy_co2 data > travel_co2 data)
         \<and> \<not> (waste_co2 data > energy_co2 data \<and> waste_co2 data > travel_co2 data)
         \<and> \<not> (travel_co2 data > energy_co2 data \<and> travel_co2 data > waste_co2 data)]) = 1
   \<and> length (filter (\<lambda>block. set block \<subseteq> set (advice_list data))
        [energy_advice, waste_advice, travel_advice, fallback_advice]) = 1"
proof -
  let ?E = "energy_co2 data > waste_co2 data \<and> energy_co2 data > travel_co2 data"
  let ?W = "waste_co2 data > energy_co2 data \<and> waste_co2 data > travel_co2 data"
  let ?T = "travel_co2 data > energy_co2 data \<and> travel_co2 data > waste_co2 data"
  have e: "?E \<longrightarrow> advice_list data = energy_advice
      \<and> generate_advice data = str_join [CHR 0x0A] energy_advice"
    by (simp add: generate_advice_def advice_list_energy)
  have w: "?W \<longrightarrow> advice_list data = waste_advice
      \<and> generate_advice data = str_join [CHR 0x0A] waste_advice"
    by (simp add: generate_advice_def advice_list_waste)
  have t: "?T \<longrightarrow> advice_list data = travel_advice
      \<and> generate_advice data = str_join [CHR 0x0A] travel_advice"
    by (simp add: generate_advice_def advice_list_travel)
  have one: "length (filter (\<lambda>fired. fired) [?E, ?W, ?T, \<not> ?E \<and> \<not> ?W \<and> \<not> ?T]) = 1"
    by auto
  have blocks: "length (filter (\<lambda>block. set block \<subseteq> set (advice_list data))
        [energy_advice, waste_advice, travel_advice, fallback_advice]) = 1"
    using advice_list_cases [of data] by (auto simp only: blocks_contained list.size)
  from e w t one blocks show ?thesis by blast
qed

theorem advice_branches_exclusive_witness:
  "generate_advice \<lparr> energy_co2 = 3, waste_co2 = 2, travel_co2 = 1, total_co2 = 6 \<rparr>
     = str_join [CHR 0x0A] energy_advice
   \<and> generate_advice \<lparr> energy_co2 = 2, waste_co2 = 3, travel_co2 = 1, total_co2 = 6 \<rparr>
     = str_join [CHR 0x0A] waste_advice
   \<and> generate_advice \<lparr> energy_co2 = 1, waste_co2 = 2, travel_co2 = 3, total_co2 = 6 \<rparr>
     = str_join [CHR 0x0A] travel_advice"
  using advice_branches_exclusive
      [of "\<lparr> energy_co2 = 3, waste_co2 = 2, travel_co2 = 1, total_co2 = 6 \<rparr>"]
    advice_branches_exclusive
      [of "\<lparr> energy_co2 = 2, waste_co2 = 3, travel_co2 = 1, total_co2 = 6 \<rparr>"]
    advice_branches_exclusive
      [of "\<lparr> energy_co2 = 1, waste_co2 = 2, travel_co2 = 3, total_co2 = 6 \<rparr>"]
  by simp

text \<open>
  Claim C9. For every breakdown, negative and zero components included, the advice is one
  of four fixed strings: one of the three category blocks of three lines or the
  fallback block of two lines. It is never empty and has 2 or 3 numbered
  recommendations, one per line.
\<close>

theorem generate_advice_four_outputs:
  "(generate_advice data = str_join [CHR 0x0A] energy_advice
    \<or> generate_advice data = str_join [CHR 0x0A] waste_advice
    \<or> generate_advice data = str_join [CHR 0x0A] travel_advice
    \<or> generate_advice data = str_join [CHR 0x0A] fallback_advice)
   \<and> generate_advice data \<noteq> []
   \<and> (length (advice_list data) = 2 \<or> length (advice_list data) = 3)
   \<and> length (filter (\<lambda>c. c = CHR 0x0A) (generate_advice data)) + 1 = length (advice_list data)
   \<and> length energy_advice = 3 \<and> length waste_advice = 3 \<and> length travel_advice = 3
   \<and> length fallback_advice = 2"
proof -
  have lens: "length energy_advice = 3" "length waste_advice = 3" "length travel_advice = 3"
    "length fallback_advice = 2"
    by (simp_all add: energy_advice_def waste_advice_def travel_advice_def fallback_advice_def)
  have ne: "str_join [CHR 0x0A] energy_advice \<noteq> []" "str_join [CHR 0x0A] waste_advice \<noteq> []"
    "str_join [CHR 0x0A] travel_advice \<noteq> []" "str_join [CHR 0x0A] fallback_advice \<noteq> []"
    by (simp_all add: energy_advice_def waste_advice_def travel_advice_def fallback_advice_def)
  show ?thesis
    using advice_list_cases [of data] lens ne newline_counts
    by (auto simp add: generate_advice_def)
qed

text \<open>
  Claim C10. The advice depends only on \<open>energy_co2\<close>, \<open>waste_co2\<close> and \<open>travel_co2\<close>: two
  breakdowns that agree on these three, whatever their \<open>total_co2\<close>, get the same
  advice.
\<close>

theorem advice_ignores_total:
  assumes "energy_co2 a = energy_co2 b" and "waste_co2 a = waste_co2 b"
    and "travel_co2 a = travel_co2 b"
  shows "generate_advice a = generate_advice b"
  using assms by (simp add: generate_advice_def advice_list_def)

theorem advice_ignores_total_witness:
  "total_co2 \<lparr> energy_co2 = 1, waste_co2 = 2, travel_co2 = 3, total_co2 = 6 \<rparr>
     \<noteq> total_co2 \<lparr> energy_co2 = 1, waste_co2 = 2, travel_co2 = 3, total_co2 = 0 \<rparr>
   \<and> generate_advice \<lparr> energy_co2 = 1, waste_co2 = 2, travel_co2 = 3, total_co2 = 6 \<rparr>
     = generate_advice \<lparr> energy_co2 = 1, waste_co2 = 2, travel_co2 = 3, total_co2 = 0 \<rparr>"
  using advice_ignores_total
    [of "\<lparr> energy_co2 = 1, waste_co2 = 2, travel_co2 = 3, total_co2 = 6 \<rparr>"
        "\<lparr> energy_co2 = 1, waste_co2 = 2, travel_co2 = 3, total_co2 = 0 \<rparr>"]
  by simp

end
